theory Spec2Isabelle
  imports Complex_Main "HOL-Library.Sublist"
begin

section \<open>JavaScript values and built-ins used by script.js\<close>

text \<open>
  Numbers of the JSON payload are modelled as rationals, weather codes and flags as
  integers, strings as lists of 8-bit code units. Reading an array past its end gives
  JavaScript's \<open>undefined\<close>, modelled as \<open>None\<close>; no read of the controller raises on
  a payload whose arrays hold values of their declared type.
\<close>

definition js_index :: "'a list \<Rightarrow> int \<Rightarrow> 'a option" where
  "js_index xs i = (if 0 \<le> i \<and> i < int (length xs) then Some (xs ! nat i) else None)"

text \<open>\<open>Array.prototype.findIndex\<close>: the first index whose element satisfies the
  predicate, \<open>-1\<close> when there is none.\<close>

fun findIndexFrom :: "('a \<Rightarrow> bool) \<Rightarrow> 'a list \<Rightarrow> int \<Rightarrow> int" where
  "findIndexFrom p [] k = - 1"
| "findIndexFrom p (x # xs) k = (if p x then k else findIndexFrom p xs (k + 1))"

definition findIndex :: "('a \<Rightarrow> bool) \<Rightarrow> 'a list \<Rightarrow> int" where
  "findIndex p xs = findIndexFrom p xs 0"

text \<open>\<open>String.prototype.startsWith\<close>; an \<open>undefined\<close> argument is converted to the
  string \<open>undefined\<close> first.\<close>

definition js_startsWith :: "string \<Rightarrow> string option \<Rightarrow> bool" where
  "js_startsWith t target =
     prefix (case target of None \<Rightarrow> ''undefined'' | Some s \<Rightarrow> s) t"

text \<open>Decimal printing of the integers that \<open>Math.round\<close> and \<open>getHours\<close> return.\<close>

definition digit_char :: "nat \<Rightarrow> char" where
  "digit_char d = ''0123456789'' ! d"

fun show_nat :: "nat \<Rightarrow> string" where
  "show_nat n =
     (if n < 10 then [digit_char n] else show_nat (n div 10) @ [digit_char (n mod 10)])"

declare show_nat.simps [simp del]

definition show_int :: "int \<Rightarrow> string" where
  "show_int i = (if i < 0 then ''-'' @ show_nat (nat (- i)) else show_nat (nat i))"

text \<open>\<open>Math.round\<close> rounds to the nearest integer, halves towards plus infinity;
  on \<open>undefined\<close> it is NaN, which a template literal prints as \<open>NaN\<close>.\<close>

definition math_round :: "rat \<Rightarrow> int" where
  "math_round x = \<lfloor>x + 1 / 2\<rfloor>"

definition round_str :: "rat option \<Rightarrow> string" where
  "round_str v = (case v of None \<Rightarrow> ''NaN'' | Some x \<Rightarrow> show_int (math_round x))"

definition deg_sign :: char where
  "deg_sign = CHR 0xB0"

text \<open>\<open>String.prototype.trim\<close> on 8-bit code units: tab, line feed, vertical tab,
  form feed, carriage return, space and no-break space are white space.\<close>

definition is_ws :: "char \<Rightarrow> bool" where
  "is_ws c = (c = CHR 0x09 \<or> c = CHR 0x0A \<or> c = CHR 0x0B \<or> c = CHR 0x0C
              \<or> c = CHR 0x0D \<or> c = CHR 0x20 \<or> c = CHR 0xA0)"

definition trim :: "string \<Rightarrow> string" where
  "trim s = rev (dropWhile is_ws (rev (dropWhile is_ws s)))"

text \<open>
  The parts of the JavaScript runtime that the controller calls and that are not code of
  the repository: the \<open>Date\<close> class, locale formatting and the printing of a non-integer
  number. \<open>date_getTime t\<close> is the time value of \<open>new Date(t)\<close> in milliseconds
  (\<open>None\<close> for an invalid date), \<open>date_getHours t\<close> its local hour.
\<close>

record runtime =
  date_getTime :: "string \<Rightarrow> int option"
  date_getHours :: "string \<Rightarrow> nat option"
  fmt_now :: "int \<Rightarrow> string"
  fmt_day :: "string option \<Rightarrow> string"
  fmt_weekday :: "string \<Rightarrow> string"
  num_toString :: "rat \<Rightarrow> string"

definition js_string :: "runtime \<Rightarrow> rat option \<Rightarrow> string" where
  "js_string rt v = (case v of None \<Rightarrow> ''undefined'' | Some x \<Rightarrow> num_toString rt x)"

text \<open>\<open>new Date(t) > now\<close>: false when the date is invalid.\<close>

definition date_after :: "runtime \<Rightarrow> int \<Rightarrow> string \<Rightarrow> bool" where
  "date_after rt now t = (case date_getTime rt t of None \<Rightarrow> False | Some v \<Rightarrow> now < v)"

section \<open>The forecast payload\<close>

record current_data =
  temperature_2m :: rat
  relative_humidity_2m :: rat
  apparent_temperature :: rat
  is_day :: int
  precipitation :: rat
  weather_code :: int
  wind_speed_10m :: rat

record hourly_data =
  hr_time :: "string list"
  hr_temperature_2m :: "rat list"
  hr_weather_code :: "int list"

record daily_data =
  dl_time :: "string list"
  dl_weather_code :: "int list"
  dl_temperature_2m_max :: "rat list"
  dl_temperature_2m_min :: "rat list"
  dl_uv_index_max :: "rat list"
  dl_precipitation_probability_max :: "rat list"
  dl_wind_speed_10m_max :: "rat list"

record forecast =
  f_current :: current_data
  f_hourly :: hourly_data
  f_daily :: daily_data

record weather_data =
  wd_current :: current_data
  wd_hourly :: hourly_data
  wd_daily :: daily_data
  wd_cityName :: string

section \<open>parseWeather\<close>

record meta =
  label :: string
  icon :: string
  theme :: string

text \<open>Comparisons of a possibly undefined code with a constant: all false on
  \<open>undefined\<close>.\<close>

definition js_le :: "int option \<Rightarrow> int \<Rightarrow> bool" where
  "js_le c k = (case c of None \<Rightarrow> False | Some v \<Rightarrow> v \<le> k)"

definition js_ge :: "int option \<Rightarrow> int \<Rightarrow> bool" where
  "js_ge c k = (case c of None \<Rightarrow> False | Some v \<Rightarrow> k \<le> v)"

definition icon_url :: "string \<Rightarrow> string \<Rightarrow> string" where
  "icon_url n b = ''https://openweathermap.org/img/wn/'' @ n @ b @ ''@4x.png''"

definition parseWeather :: "int option \<Rightarrow> int \<Rightarrow> meta" where
  "parseWeather code isDay =
     (let b = (if isDay \<noteq> 0 then ''d'' else ''n'') in
      if code = Some 0 then
        \<lparr>label = ''Clear Sky'', icon = icon_url ''01'' b,
         theme = (if isDay \<noteq> 0 then ''clear'' else ''night'')\<rparr>
      else if js_le code 3 then
        \<lparr>label = ''Partly Cloudy'', icon = icon_url ''02'' b, theme = ''cloudy''\<rparr>
      else if js_ge code 45 \<and> js_le code 48 then
        \<lparr>label = ''Foggy'', icon = icon_url ''50'' b, theme = ''cloudy''\<rparr>
      else if js_ge code 51 \<and> js_le code 67 then
        \<lparr>label = ''Rain'', icon = icon_url ''10'' b, theme = ''rain''\<rparr>
      else if js_ge code 71 \<and> js_le code 86 then
        \<lparr>label = ''Snowfall'', icon = icon_url ''13'' b, theme = ''cloudy''\<rparr>
      else if js_ge code 95 then
        \<lparr>label = ''Thunderstorm'', icon = icon_url ''11'' b, theme = ''rain''\<rparr>
      else
        \<lparr>label = ''Cloudy'', icon = icon_url ''03'' b, theme = ''cloudy''\<rparr>)"

text \<open>
  The bucket table as the specification words it: an ordered list of rows (code range,
  label, theme by day and by night), the first matching row wins, and the fallback row
  catches what no row matches.
\<close>

definition spec_table :: "((int \<Rightarrow> bool) \<times> string \<times> string \<times> string) list" where
  "spec_table =
     [((\<lambda>c. c = 0), ''Clear Sky'', ''clear'', ''night''),
      ((\<lambda>c. 1 \<le> c \<and> c \<le> 3), ''Partly Cloudy'', ''cloudy'', ''cloudy''),
      ((\<lambda>c. 45 \<le> c \<and> c \<le> 48), ''Foggy'', ''cloudy'', ''cloudy''),
      ((\<lambda>c. 51 \<le> c \<and> c \<le> 67), ''Rain'', ''rain'', ''rain''),
      ((\<lambda>c. 71 \<le> c \<and> c \<le> 86), ''Snowfall'', ''cloudy'', ''cloudy''),
      ((\<lambda>c. 95 \<le> c), ''Thunderstorm'', ''rain'', ''rain'')]"

definition spec_classify :: "int \<Rightarrow> bool \<Rightarrow> string \<times> string" where
  "spec_classify code day =
     (case find (\<lambda>row. fst row code) spec_table of
        None \<Rightarrow> (''Cloudy'', ''cloudy'')
      | Some (r, l, td, tn) \<Rightarrow> (l, if day then td else tn))"

section \<open>renderHourly\<close>

record hour_card =
  h_time :: string
  h_icon :: string
  h_temp :: string

text \<open>The label of an hour, line 198. On an invalid date \<open>getHours\<close> is NaN, every
  comparison is false and the last branch prints it.\<close>

definition hourLabel :: "nat option \<Rightarrow> string" where
  "hourLabel hh =
     (case hh of
        None \<Rightarrow> ''NaN AM''
      | Some h \<Rightarrow>
          if h = 0 then ''12 AM''
          else if h > 12 then show_nat (h - 12) @ '' PM''
          else show_nat h @ '' AM'')"

definition hourIsDay :: "nat option \<Rightarrow> int" where
  "hourIsDay hh = (case hh of None \<Rightarrow> 0 | Some h \<Rightarrow> if h > 6 \<and> h < 19 then 1 else 0)"

text \<open>The number of consecutive truthy timestamps from index \<open>i\<close> on: the
  entries the loop can reach before \<open>hourly.time[i]\<close> is \<open>undefined\<close> or empty.\<close>

definition entriesFrom :: "string list \<Rightarrow> nat \<Rightarrow> nat" where
  "entriesFrom ts i = length (takeWhile (\<lambda>t. t \<noteq> []) (drop i ts))"

text \<open>The body of the loop for an entry \<open>t = hourly.time[i]\<close> that is present.\<close>

definition hourCard :: "runtime \<Rightarrow> hourly_data \<Rightarrow> int \<Rightarrow> nat \<Rightarrow> nat \<Rightarrow> string \<Rightarrow> hour_card" where
  "hourCard rt hourly dayIndex startIdx i t =
     (let h = date_getHours rt t;
          lab = hourLabel h;
          m = parseWeather (js_index (hr_weather_code hourly) (int i)) (hourIsDay h);
          timeLabel = (if dayIndex = - 1 \<and> i = startIdx then ''Now'' else lab)
      in \<lparr>h_time = timeLabel, h_icon = icon m,
          h_temp = round_str (js_index (hr_temperature_2m hourly) (int i)) @ [deg_sign]\<rparr>)"

text \<open>The loop of lines 194 to 222: it leaves at the first index where
  \<open>hourly.time[i]\<close> is falsy, that is past the end of the array or an empty string.\<close>

function hourLoop :: "runtime \<Rightarrow> hourly_data \<Rightarrow> int \<Rightarrow> nat \<Rightarrow> nat \<Rightarrow> hour_card list" where
  "hourLoop rt hourly dayIndex startIdx i =
     (if i < startIdx + 24 then
        (case js_index (hr_time hourly) (int i) of
           None \<Rightarrow> []
         | Some t \<Rightarrow>
             if t = [] then []
             else hourCard rt hourly dayIndex startIdx i t
                    # hourLoop rt hourly dayIndex startIdx (i + 1))
      else [])"
  by pat_completeness auto
termination
  by (relation "measure (\<lambda>(rt, hourly, dayIndex, startIdx, i). startIdx + 24 - i)") auto

declare hourLoop.simps [simp del]

text \<open>Lines 179 to 191: the index the window starts at. \<open>daily\<close> defaults to
  \<open>null\<close>, modelled as \<open>None\<close>.\<close>

definition startIndex :: "runtime \<Rightarrow> int \<Rightarrow> hourly_data \<Rightarrow> int \<Rightarrow> daily_data option \<Rightarrow> nat" where
  "startIndex rt now hourly dayIndex daily =
     (if dayIndex = - 1 then
        (let s = findIndex (date_after rt now) (hr_time hourly)
         in if s = - 1 then 0 else nat s)
      else
        (case daily of
           Some d \<Rightarrow>
             (let targetDate = js_index (dl_time d) dayIndex;
                  s = findIndex (\<lambda>t. js_startsWith t targetDate) (hr_time hourly)
              in if s = - 1 then 0 else nat s)
         | None \<Rightarrow> 0))"

definition renderHourly :: "runtime \<Rightarrow> int \<Rightarrow> hourly_data \<Rightarrow> int \<Rightarrow> daily_data option \<Rightarrow> hour_card list" where
  "renderHourly rt now hourly dayIndex daily =
     (let startIdx = startIndex rt now hourly dayIndex daily
      in hourLoop rt hourly dayIndex startIdx startIdx)"

section \<open>renderMainView\<close>

text \<open>What \<open>renderMainView\<close> writes into the page: the text of each element it sets,
  the display of the degree glyph, the class of the body and the hourly strip.\<close>

record main_view =
  cityName_text :: string
  currentDay_text :: string
  conditionDesc_text :: string
  tempNow :: string
  deg_display :: string
  weatherIcon_src :: string
  precip_text :: string
  humidity_text :: string
  wind_text :: string
  uv_text :: string
  body_className :: string
  hourlyWrapper :: "hour_card list"

text \<open>\<open>now_header\<close> is the clock read at line 122, \<open>now_hourly\<close> the one read at
  line 183.\<close>

definition renderMainView :: "runtime \<Rightarrow> int \<Rightarrow> int \<Rightarrow> weather_data \<Rightarrow> int \<Rightarrow> main_view" where
  "renderMainView rt now_header now_hourly data index =
     (let isCurrent = (index = - 1);
          cur = wd_current data;
          day = wd_daily data;
          m = (if isCurrent then parseWeather (Some (weather_code cur)) (is_day cur)
               else parseWeather (js_index (dl_weather_code day) index) 1);
          dateString = (if isCurrent then fmt_now rt now_header
                        else fmt_day rt (js_index (dl_time day) index));
          tempDisplay =
            (if isCurrent then round_str (Some (temperature_2m cur))
             else ''<span style=\"font-size: 0.6em\">''
                  @ round_str (js_index (dl_temperature_2m_max day) index)
                  @ [deg_sign] @ '' / ''
                  @ round_str (js_index (dl_temperature_2m_min day) index)
                  @ ''</span>'');
          precipVal =
            (if isCurrent then num_toString rt (precipitation cur) @ '' mm''
             else js_string rt (js_index (dl_precipitation_probability_max day) index) @ ''%'');
          humidityVal =
            (if isCurrent then num_toString rt (relative_humidity_2m cur) @ ''%''
             else ''--'');
          windVal =
            (if isCurrent then round_str (Some (wind_speed_10m cur)) @ '' km/h''
             else round_str (js_index (dl_wind_speed_10m_max day) index) @ '' km/h'');
          uvVal = (if isCurrent then js_index (dl_uv_index_max day) 0
                   else js_index (dl_uv_index_max day) index)
      in \<lparr>cityName_text = wd_cityName data,
          currentDay_text = dateString,
          conditionDesc_text = label m,
          tempNow = tempDisplay,
          deg_display = (if isCurrent then ''inline'' else ''none''),
          weatherIcon_src = icon m,
          precip_text = precipVal,
          humidity_text = humidityVal,
          wind_text = windVal,
          uv_text = js_string rt uvVal,
          body_className = ''theme-'' @ theme m,
          hourlyWrapper = renderHourly rt now_hourly (wd_hourly data) index (Some day)\<rparr>)"

section \<open>renderDaily\<close>

record day_row =
  d_name :: string
  d_precip :: "string option"
  d_icon :: string
  d_high :: string
  d_low :: string

definition dayRow :: "runtime \<Rightarrow> daily_data \<Rightarrow> nat \<Rightarrow> day_row" where
  "dayRow rt daily i =
     (let day = (if i = 0 then ''Today'' else fmt_weekday rt (dl_time daily ! i));
          m = parseWeather (js_index (dl_weather_code daily) (int i)) 1;
          precip = js_index (dl_precipitation_probability_max daily) (int i)
      in \<lparr>d_name = day,
          d_precip = (case precip of
                        None \<Rightarrow> None
                      | Some p \<Rightarrow> if p > 0 then Some (num_toString rt p @ ''%'') else None),
          d_icon = icon m,
          d_high = round_str (js_index (dl_temperature_2m_max daily) (int i)) @ [deg_sign],
          d_low = round_str (js_index (dl_temperature_2m_min daily) (int i)) @ [deg_sign]\<rparr>)"

definition renderDaily :: "runtime \<Rightarrow> daily_data \<Rightarrow> day_row list" where
  "renderDaily rt daily = map (dayRow rt daily) [0 ..< length (dl_time daily)]"

section \<open>The page, the stored payload and the handlers\<close>

record dom =
  cityInput_value :: string
  statusDiv_display :: string
  statusDiv_hidden :: bool
  statusText :: string
  weatherApp_display :: string
  weatherApp_hidden :: bool
  forecastSection_minWidth :: "string option"
  mainCard :: "main_view option"
  dailyWrapper :: "day_row list"

definition setLoadingState :: "string \<Rightarrow> dom \<Rightarrow> dom" where
  "setLoadingState msg d =
     d\<lparr>statusDiv_display := ''flex'', statusDiv_hidden := False, statusText := msg,
       weatherApp_display := ''none'', weatherApp_hidden := True\<rparr>"

text \<open>\<open>forecastSection_minWidth\<close> is \<open>None\<close> when the page has no forecast
  section; \<open>populateUI\<close> sets the width only when the element is there.\<close>

definition populateUI :: "runtime \<Rightarrow> int \<Rightarrow> int \<Rightarrow> weather_data \<Rightarrow> dom \<Rightarrow> dom" where
  "populateUI rt now_header now_hourly data d =
     d\<lparr>statusDiv_display := ''none'', statusDiv_hidden := True,
       weatherApp_display := ''block'', weatherApp_hidden := False,
       forecastSection_minWidth := map_option (\<lambda>_. ''0'') (forecastSection_minWidth d),
       mainCard := Some (renderMainView rt now_header now_hourly data (- 1)),
       dailyWrapper := renderDaily rt (wd_daily data)\<rparr>"

text \<open>The two HTTP collaborators answer a request or fail (network or parse failure).
  Every request sent is appended to \<open>requests\<close>.\<close>

record address =
  city :: "string option"
  town :: "string option"
  village :: "string option"
  county :: "string option"
  postcode :: "string option"

record geo_result =
  lat :: string
  lon :: string
  address :: address

datatype request = SearchRequest string | ForecastRequest string string

record world =
  w_runtime :: runtime
  clock_header :: int
  clock_hourly :: int
  search_api :: "string \<Rightarrow> geo_result list option"
  forecast_api :: "string \<Rightarrow> string \<Rightarrow> forecast option"

record app_state =
  weatherData :: "weather_data option"
  page :: dom
  requests :: "request list"

text \<open>\<open>a || b\<close> on optional strings: the left operand when it is truthy (present and
  not empty).\<close>

definition truthy :: "string option \<Rightarrow> bool" where
  "truthy v = (case v of None \<Rightarrow> False | Some s \<Rightarrow> s \<noteq> [])"

definition displayNameOf :: "address \<Rightarrow> string" where
  "displayNameOf a =
     (let name = (if truthy (city a) then the (city a)
                  else if truthy (town a) then the (town a)
                  else if truthy (village a) then the (village a)
                  else if truthy (county a) then the (county a)
                  else ''Unknown Location'')
      in if truthy (postcode a) then name @ '', '' @ the (postcode a) else name)"

definition getWeather :: "world \<Rightarrow> string \<Rightarrow> string \<Rightarrow> string \<Rightarrow> app_state \<Rightarrow> app_state" where
  "getWeather w la lo name st =
     (let st1 = st\<lparr>requests := requests st @ [ForecastRequest la lo]\<rparr> in
      case forecast_api w la lo of
        None \<Rightarrow> st1\<lparr>page := setLoadingState ''Weather data unavailable.'' (page st1)\<rparr>
      | Some data \<Rightarrow>
          (let wd = \<lparr>wd_current = f_current data, wd_hourly = f_hourly data,
                     wd_daily = f_daily data, wd_cityName = name\<rparr>
           in st1\<lparr>weatherData := Some wd,
                  page := populateUI (w_runtime w) (clock_header w) (clock_hourly w) wd (page st1)\<rparr>))"

definition handleManualSearch :: "world \<Rightarrow> app_state \<Rightarrow> app_state" where
  "handleManualSearch w st =
     (let val = trim (cityInput_value (page st)) in
      if val = [] then st
      else
        (let st1 = st\<lparr>page := setLoadingState (''Searching for '' @ val @ ''...'') (page st),
                      requests := requests st @ [SearchRequest val]\<rparr>
         in case search_api w val of
              None \<Rightarrow> st1\<lparr>page := setLoadingState ''Search connection error.'' (page st1)\<rparr>
            | Some results \<Rightarrow>
                (case results of
                   data # _ \<Rightarrow> getWeather w (lat data) (lon data) (displayNameOf (address data)) st1
                 | [] \<Rightarrow> st1\<lparr>page := setLoadingState ''City not found.'' (page st1)\<rparr>)))"

section \<open>A sample runtime, payload and page\<close>

text \<open>Concrete inputs at which the theorems below are instantiated: four hourly entries
  over two days, four daily entries, a runtime that knows the four timestamps (time
  values in milliseconds from the start of the first day), and a search collaborator
  that finds no place called Nowhereville.\<close>

definition ex_times :: "string list" where
  "ex_times = [''2024-01-01T10:00'', ''2024-01-01T11:00'', ''2024-01-01T12:00'',
               ''2024-01-02T00:00'']"

definition ex_rt :: runtime where
  "ex_rt =
     \<lparr>date_getTime = map_of (zip ex_times [36000000, 39600000, 43200000, 86400000]),
      date_getHours = map_of (zip ex_times [10, 11, 12, 0]),
      fmt_now = show_int,
      fmt_day = (\<lambda>s. case s of None \<Rightarrow> ''Invalid Date'' | Some d \<Rightarrow> d),
      fmt_weekday = (\<lambda>s. s),
      num_toString = (\<lambda>x. show_int \<lfloor>x\<rfloor>)\<rparr>"

definition ex_hourly :: hourly_data where
  "ex_hourly = \<lparr>hr_time = ex_times, hr_temperature_2m = [5, 6, 7, 3],
                 hr_weather_code = [0, 61, 3, 97]\<rparr>"

definition ex_daily :: daily_data where
  "ex_daily =
     \<lparr>dl_time = [''2024-01-01'', ''2024-01-02'', ''2024-01-03'', ''2024-01-04''],
      dl_weather_code = [0, 61, 3, 97],
      dl_temperature_2m_max = [7, 8, 9, 10],
      dl_temperature_2m_min = [1, 2, 3, 4],
      dl_uv_index_max = [2, 3, 4, 5],
      dl_precipitation_probability_max = [0, 80, 10, 20],
      dl_wind_speed_10m_max = [12, 14, 16, 18]\<rparr>"

definition ex_data :: weather_data where
  "ex_data =
     \<lparr>wd_current = \<lparr>temperature_2m = 5, relative_humidity_2m = 70,
                     apparent_temperature = 4, is_day = 1, precipitation = 0,
                     weather_code = 0, wind_speed_10m = 11\<rparr>,
      wd_hourly = ex_hourly, wd_daily = ex_daily, wd_cityName = ''Shimla''\<rparr>"

definition ex_world :: world where
  "ex_world =
     \<lparr>w_runtime = ex_rt, clock_header = 36000000, clock_hourly = 36000000,
      search_api = (\<lambda>q. if q = ''Nowhereville'' then Some [] else None),
      forecast_api = (\<lambda>la lo. None)\<rparr>"

definition ex_state :: "string \<Rightarrow> app_state" where
  "ex_state input =
     \<lparr>weatherData = Some ex_data,
      page = \<lparr>cityInput_value = input, statusDiv_display = ''none'',
              statusDiv_hidden = True, statusText = [],
              weatherApp_display = ''block'', weatherApp_hidden = False,
              forecastSection_minWidth = Some ''0'',
              mainCard = Some (renderMainView ex_rt 0 0 ex_data (- 1)),
              dailyWrapper = renderDaily ex_rt ex_daily\<rparr>,
      requests = []\<rparr>"

section \<open>Auxiliary facts\<close>

lemma js_index_nat:
  "js_index xs (int i) = (if i < length xs then Some (xs ! i) else None)"
  by (simp add: js_index_def)

lemma js_index_valid:
  "0 \<le> i \<Longrightarrow> i < int (length xs) \<Longrightarrow> js_index xs i = Some (xs ! nat i)"
  by (simp add: js_index_def)

lemma findIndexFrom_none:
  "(\<forall>x\<in>set xs. \<not> p x) \<Longrightarrow> findIndexFrom p xs k = - 1"
  by (induction xs arbitrary: k) auto

lemma findIndexFrom_some:
  "(\<exists>x\<in>set xs. p x) \<Longrightarrow>
     findIndexFrom p xs k = k + int (length (takeWhile (\<lambda>x. \<not> p x) xs))"
proof (induction xs arbitrary: k)
  case Nil
  then show ?case by simp
next
  case (Cons a xs)
  show ?case
  proof (cases "p a")
    case True
    then show ?thesis by simp
  next
    case False
    with Cons.prems have "\<exists>x\<in>set xs. p x" by auto
    from Cons.IH [OF this, of "k + 1"] False show ?thesis by simp
  qed
qed

lemma takeWhile_not_short:
  "\<exists>x\<in>set xs. p x \<Longrightarrow> length (takeWhile (\<lambda>x. \<not> p x) xs) < length xs"
  by (induction xs) auto

text \<open>The start index computed from \<open>findIndex\<close> with its \<open>-1\<close> check.\<close>

lemma findIndex_start:
  "(let s = findIndex p xs in if s = - 1 then 0 else nat s)
     = (if \<exists>x\<in>set xs. p x then length (takeWhile (\<lambda>x. \<not> p x) xs) else 0)"
proof (cases "\<exists>x\<in>set xs. p x")
  case True
  then show ?thesis
    using findIndexFrom_some [of xs p 0] by (simp add: findIndex_def Let_def)
next
  case False
  then show ?thesis
    using findIndexFrom_none [of xs p 0] by (simp add: findIndex_def Let_def)
qed

lemma first_match:
  assumes "\<exists>x\<in>set xs. p x"
  shows "length (takeWhile (\<lambda>x. \<not> p x) xs) < length xs
         \<and> p (xs ! length (takeWhile (\<lambda>x. \<not> p x) xs))
         \<and> (\<forall>j < length (takeWhile (\<lambda>x. \<not> p x) xs). \<not> p (xs ! j))"
proof -
  let ?s = "length (takeWhile (\<lambda>x. \<not> p x) xs)"
  have lt: "?s < length xs"
    using assms by (rule takeWhile_not_short)
  have here: "p (xs ! ?s)"
    using nth_length_takeWhile [of "\<lambda>x. \<not> p x" xs] lt by simp
  have before: "\<forall>j < ?s. \<not> p (xs ! j)"
    using takeWhile_nth nth_mem set_takeWhileD by metis
  from lt here before show ?thesis by blast
qed

lemma first_match_start:
  fixes p :: "'a \<Rightarrow> bool" and xs :: "'a list"
  defines "s \<equiv> (if \<exists>x\<in>set xs. p x then length (takeWhile (\<lambda>x. \<not> p x) xs) else 0)"
  shows "((\<exists>x\<in>set xs. p x) \<longrightarrow> s < length xs \<and> p (xs ! s) \<and> (\<forall>j<s. \<not> p (xs ! j)))
         \<and> ((\<forall>x\<in>set xs. \<not> p x) \<longrightarrow> s = 0)"
  unfolding s_def using first_match [of xs p] by auto

lemma entriesFrom_step:
  "i < length ts \<Longrightarrow> ts ! i \<noteq> [] \<Longrightarrow> entriesFrom ts i = Suc (entriesFrom ts (i + 1))"
  by (simp add: entriesFrom_def Cons_nth_drop_Suc [symmetric])

lemma entriesFrom_stop:
  "\<not> (i < length ts \<and> ts ! i \<noteq> []) \<Longrightarrow> entriesFrom ts i = 0"
  by (cases "i < length ts") (auto simp: entriesFrom_def Cons_nth_drop_Suc [symmetric])

lemma entriesFrom_le: "entriesFrom ts i \<le> length ts - i"
  unfolding entriesFrom_def
  by (metis length_takeWhile_le length_drop)

lemma entriesFrom_all:
  "(\<forall>t\<in>set ts. t \<noteq> []) \<Longrightarrow> entriesFrom ts i = length ts - i"
  unfolding entriesFrom_def
  by (simp add: takeWhile_eq_all_conv [THEN iffD2] in_set_dropD)

lemma upt_step: "i # [i + 1 ..< i + 1 + m] = [i ..< i + Suc m]"
  by (simp add: upt_conv_Cons)

lemma hourLoop_window:
  "s \<le> i \<Longrightarrow>
   hourLoop rt hourly dayIndex s i =
     map (\<lambda>j. hourCard rt hourly dayIndex s j (hr_time hourly ! j))
       [i ..< i + min (s + 24 - i) (entriesFrom (hr_time hourly) i)]"
proof (induction rt hourly dayIndex s i rule: hourLoop.induct)
  case (1 rt hourly dayIndex s i)
  let ?ts = "hr_time hourly"
  let ?n = "\<lambda>i. min (s + 24 - i) (entriesFrom ?ts i)"
  let ?card = "\<lambda>j. hourCard rt hourly dayIndex s j (?ts ! j)"
  show ?case
  proof (cases "i < s + 24 \<and> i < length ?ts \<and> ?ts ! i \<noteq> []")
    case True
    have "s + 24 - i = Suc (s + 24 - (i + 1))"
      using True by arith
    then have n: "?n i = Suc (?n (i + 1))"
      using True by (simp add: entriesFrom_step del: diff_Suc_Suc)
    have ih: "hourLoop rt hourly dayIndex s (i + 1) = map ?card [i + 1 ..< i + 1 + ?n (i + 1)]"
    proof (rule "1.IH")
      show "i < s + 24" using True by simp
      show "js_index ?ts (int i) = Some (?ts ! i)" using True by (simp add: js_index_nat)
      show "?ts ! i \<noteq> []" using True by simp
      show "s \<le> i + 1" using "1.prems" by simp
    qed
    have "hourLoop rt hourly dayIndex s i = ?card i # hourLoop rt hourly dayIndex s (i + 1)"
      using True by (subst hourLoop.simps) (simp add: js_index_nat)
    also have "\<dots> = map ?card (i # [i + 1 ..< i + 1 + ?n (i + 1)])"
      by (simp only: ih list.map)
    also have "i # [i + 1 ..< i + 1 + ?n (i + 1)] = [i ..< i + ?n i]"
      by (simp only: n upt_step)
    finally show ?thesis .
  next
    case False
    then have "?n i = 0"
      by (auto simp: entriesFrom_stop)
    moreover have "hourLoop rt hourly dayIndex s i = []"
      using False by (subst hourLoop.simps) (auto simp: js_index_nat)
    ultimately show ?thesis by simp
  qed
qed

lemma renderHourly_window:
  "renderHourly rt now hourly dayIndex daily =
     map (\<lambda>j. hourCard rt hourly dayIndex (startIndex rt now hourly dayIndex daily) j
                (hr_time hourly ! j))
       [startIndex rt now hourly dayIndex daily ..<
        startIndex rt now hourly dayIndex daily
          + min 24 (entriesFrom (hr_time hourly) (startIndex rt now hourly dayIndex daily))]"
  by (simp add: renderHourly_def Let_def hourLoop_window)

lemma renderHourly_length:
  "length (renderHourly rt now hourly dayIndex daily) =
     min 24 (entriesFrom (hr_time hourly) (startIndex rt now hourly dayIndex daily))"
  by (simp add: renderHourly_window)

lemma renderHourly_nth:
  assumes "k < length (renderHourly rt now hourly dayIndex daily)"
  shows "renderHourly rt now hourly dayIndex daily ! k =
           hourCard rt hourly dayIndex (startIndex rt now hourly dayIndex daily)
             (startIndex rt now hourly dayIndex daily + k)
             (hr_time hourly ! (startIndex rt now hourly dayIndex daily + k))"
proof -
  have "k < min 24 (entriesFrom (hr_time hourly) (startIndex rt now hourly dayIndex daily))"
    using assms by (simp only: renderHourly_length)
  then show ?thesis
    by (simp add: renderHourly_window)
qed

lemma hourCard_time:
  "h_time (hourCard rt hourly dayIndex s i t) =
     (if dayIndex = - 1 \<and> i = s then ''Now'' else hourLabel (date_getHours rt t))"
  by (simp add: hourCard_def Let_def)

lemma startIndex_current:
  "startIndex rt now hourly (- 1) daily =
     (if \<exists>t\<in>set (hr_time hourly). date_after rt now t
      then length (takeWhile (\<lambda>t. \<not> date_after rt now t) (hr_time hourly)) else 0)"
  by (simp add: startIndex_def findIndex_start)

lemma startIndex_day:
  "0 \<le> i \<Longrightarrow> i < int (length (dl_time d)) \<Longrightarrow>
   startIndex rt now hourly i (Some d) =
     (if \<exists>t\<in>set (hr_time hourly). prefix (dl_time d ! nat i) t
      then length (takeWhile (\<lambda>t. \<not> prefix (dl_time d ! nat i) t) (hr_time hourly)) else 0)"
  by (simp add: startIndex_def findIndex_start js_index_valid js_startsWith_def)

lemma not_Now: "xs @ [c, CHR ''M''] \<noteq> ''Now''"
proof
  assume "xs @ [c, CHR ''M''] = ''Now''"
  then have "last (xs @ [c, CHR ''M'']) = last ''Now''" by simp
  then show False by simp
qed

lemma hourLabel_not_Now: "hourLabel h \<noteq> ''Now''"
proof (cases h)
  case None
  then show ?thesis by (simp add: hourLabel_def)
next
  case (Some n)
  have "show_nat (n - 12) @ '' PM'' = (show_nat (n - 12) @ '' '') @ [CHR ''P'', CHR ''M'']"
    by simp
  moreover have "show_nat n @ '' AM'' = (show_nat n @ '' '') @ [CHR ''A'', CHR ''M'']"
    by simp
  ultimately show ?thesis
    using Some not_Now by (simp add: hourLabel_def del: append_assoc append.simps)
qed

lemma trim_blank: "(\<forall>c\<in>set s. is_ws c) \<Longrightarrow> trim s = []"
proof -
  assume "\<forall>c\<in>set s. is_ws c"
  then have d: "dropWhile is_ws s = []" by simp
  show ?thesis unfolding trim_def d by simp
qed

lemma trim_empty_iff: "trim s = [] \<longleftrightarrow> (\<forall>c\<in>set s. is_ws c)"
proof
  assume e: "trim s = []"
  let ?d = "dropWhile is_ws s"
  from e have all: "\<forall>x\<in>set ?d. is_ws x"
    by (simp add: trim_def)
  have "?d = []"
  proof (rule ccontr)
    assume ne: "?d \<noteq> []"
    then have "\<not> is_ws (hd ?d)" by (rule hd_dropWhile)
    moreover have "hd ?d \<in> set ?d" using ne by simp
    ultimately show False using all by blast
  qed
  then show "\<forall>c\<in>set s. is_ws c" by simp
next
  assume "\<forall>c\<in>set s. is_ws c"
  then show "trim s = []" by (rule trim_blank)
qed

lemma spec_classify_cases:
  "spec_classify code day =
     (if code = 0 then (''Clear Sky'', if day then ''clear'' else ''night'')
      else if 1 \<le> code \<and> code \<le> 3 then (''Partly Cloudy'', ''cloudy'')
      else if 45 \<le> code \<and> code \<le> 48 then (''Foggy'', ''cloudy'')
      else if 51 \<le> code \<and> code \<le> 67 then (''Rain'', ''rain'')
      else if 71 \<le> code \<and> code \<le> 86 then (''Snowfall'', ''cloudy'')
      else if 95 \<le> code then (''Thunderstorm'', ''rain'')
      else (''Cloudy'', ''cloudy''))"
  by (simp add: spec_classify_def spec_table_def)

lemma parseWeather_spec:
  "0 \<le> code \<Longrightarrow>
   (label (parseWeather (Some code) isDay), theme (parseWeather (Some code) isDay))
     = spec_classify code (isDay \<noteq> 0)"
  unfolding spec_classify_cases
  by (simp add: parseWeather_def js_le_def js_ge_def Let_def)

lemma spec_table_disjoint: "length (filter (\<lambda>row. fst row code) spec_table) \<le> 1"
  by (simp add: spec_table_def)

section \<open>Weather-code classification\<close>

text \<open>
  C2. For every weather code from 0 to 99 and every daytime flag, \<open>parseWeather\<close>
  returns the label and theme of the first matching row of the ordered bucket table:
  code 0 is Clear Sky with theme clear by day and night otherwise, 1 to 3 Partly Cloudy,
  45 to 48 Foggy, 51 to 67 Rain with theme rain whatever the flag, 71 to 86 Snowfall,
  95 and above Thunderstorm, and every other code the fallback Cloudy. At most one row
  of the table matches a code, so the bucket is unique.
\<close>

theorem parseWeather_table:
  assumes "0 \<le> code" and "code \<le> 99"
  shows "(label (parseWeather (Some code) isDay), theme (parseWeather (Some code) isDay))
           = spec_classify code (isDay \<noteq> 0)
         \<and> (label (parseWeather (Some code) isDay), theme (parseWeather (Some code) isDay))
           = (if code = 0 then (''Clear Sky'', if isDay \<noteq> 0 then ''clear'' else ''night'')
              else if 1 \<le> code \<and> code \<le> 3 then (''Partly Cloudy'', ''cloudy'')
              else if 45 \<le> code \<and> code \<le> 48 then (''Foggy'', ''cloudy'')
              else if 51 \<le> code \<and> code \<le> 67 then (''Rain'', ''rain'')
              else if 71 \<le> code \<and> code \<le> 86 then (''Snowfall'', ''cloudy'')
              else if 95 \<le> code then (''Thunderstorm'', ''rain'')
              else (''Cloudy'', ''cloudy''))
         \<and> length (filter (\<lambda>row. fst row code) spec_table) \<le> 1"
proof -
  have a: "(label (parseWeather (Some code) isDay), theme (parseWeather (Some code) isDay))
             = spec_classify code (isDay \<noteq> 0)"
    using assms(1) by (rule parseWeather_spec)
  from a spec_classify_cases [of code "isDay \<noteq> 0"] spec_table_disjoint [of code]
  show ?thesis by simp
qed

theorem parseWeather_table_witness:
  "(0::int) \<le> 61 \<and> (61::int) \<le> 99
   \<and> label (parseWeather (Some 61) 0) = ''Rain'' \<and> theme (parseWeather (Some 61) 0) = ''rain''
   \<and> label (parseWeather (Some 0) 1) = ''Clear Sky'' \<and> theme (parseWeather (Some 0) 1) = ''clear''
   \<and> label (parseWeather (Some 97) 1) = ''Thunderstorm''
   \<and> label (parseWeather (Some 40) 1) = ''Cloudy''"
  using parseWeather_table [of 61 0] parseWeather_table [of 0 1]
    parseWeather_table [of 97 1] parseWeather_table [of 40 1]
  by simp

text \<open>
  C9. Weather code 50 falls into the fallback bucket: \<open>parseWeather\<close> labels it Cloudy
  with theme cloudy, not Foggy and not Rain, whatever the daytime flag.
\<close>

theorem parseWeather_code_50:
  "label (parseWeather (Some 50) isDay) = ''Cloudy''
   \<and> theme (parseWeather (Some 50) isDay) = ''cloudy''
   \<and> label (parseWeather (Some 50) isDay) \<noteq> ''Foggy''
   \<and> label (parseWeather (Some 50) isDay) \<noteq> ''Rain''"
  by (simp add: parseWeather_def js_le_def js_ge_def Let_def)

section \<open>Hour labels\<close>

lemma hourLabel_morning:
  "1 \<le> h \<Longrightarrow> h \<le> 11 \<Longrightarrow> hourLabel (Some h) = show_nat h @ '' AM''"
  by (simp add: hourLabel_def)

lemma hourLabel_afternoon:
  "13 \<le> h \<Longrightarrow> hourLabel (Some h) = show_nat (h - 12) @ '' PM''"
  by (simp add: hourLabel_def)

lemma hourLabel_boundaries:
  "hourLabel (Some 0) = ''12 AM'' \<and> hourLabel (Some 1) = ''1 AM''
   \<and> hourLabel (Some 11) = ''11 AM'' \<and> hourLabel (Some 13) = ''1 PM''
   \<and> hourLabel (Some 23) = ''11 PM''"
  by (simp add: hourLabel_def show_nat.simps digit_char_def)

text \<open>
  C1. The 12-hour boundary rule asks for the label 12 PM at hour 12. The label computed
  at line 198 tests \<open>h > 12\<close>, so hour 12 takes the morning branch and is labelled
  12 AM, the label of midnight.
\<close>

theorem hourLabel_noon:
  "hourLabel (Some 12) = ''12 AM'' \<and> hourLabel (Some 12) \<noteq> ''12 PM''
   \<and> hourLabel (Some 12) = hourLabel (Some 0)"
  by (simp add: hourLabel_def show_nat.simps digit_char_def)

section \<open>The hourly window\<close>

text \<open>
  C4. Whatever the hourly payload, the slot and the start index computed from them,
  \<open>renderHourly\<close> produces at most 24 cards and never more than the entries that remain
  from the start index: the cards are exactly those of the entries at the start index
  and after it, as many as the consecutive truthy timestamps there, capped at 24. When
  no timestamp is empty that is the smaller of 24 and the number of entries left. The
  function is total on every payload: a payload that runs out ends the loop.
\<close>

theorem hourly_window_at_most_24:
  "length (renderHourly rt now hourly dayIndex daily) \<le> 24
   \<and> length (renderHourly rt now hourly dayIndex daily)
       \<le> length (hr_time hourly) - startIndex rt now hourly dayIndex daily
   \<and> length (renderHourly rt now hourly dayIndex daily)
       = min 24 (entriesFrom (hr_time hourly) (startIndex rt now hourly dayIndex daily))
   \<and> renderHourly rt now hourly dayIndex daily
       = map (\<lambda>j. hourCard rt hourly dayIndex (startIndex rt now hourly dayIndex daily) j
                    (hr_time hourly ! j))
           [startIndex rt now hourly dayIndex daily ..<
            startIndex rt now hourly dayIndex daily
              + length (renderHourly rt now hourly dayIndex daily)]
   \<and> ((\<forall>t\<in>set (hr_time hourly). t \<noteq> []) \<longrightarrow>
        length (renderHourly rt now hourly dayIndex daily)
          = min 24 (length (hr_time hourly) - startIndex rt now hourly dayIndex daily))"
proof -
  let ?s = "startIndex rt now hourly dayIndex daily"
  let ?cards = "renderHourly rt now hourly dayIndex daily"
  have len: "length ?cards = min 24 (entriesFrom (hr_time hourly) ?s)"
    by (rule renderHourly_length)
  have le24: "length ?cards \<le> 24"
    by (simp add: len)
  have left: "length ?cards \<le> length (hr_time hourly) - ?s"
    using entriesFrom_le [of "hr_time hourly" ?s] by (simp add: len)
  have cards: "?cards = map (\<lambda>j. hourCard rt hourly dayIndex ?s j (hr_time hourly ! j))
                          [?s ..< ?s + length ?cards]"
    by (simp only: len) (rule renderHourly_window)
  have full: "(\<forall>t\<in>set (hr_time hourly). t \<noteq> []) \<longrightarrow>
                length ?cards = min 24 (length (hr_time hourly) - ?s)"
    by (simp add: len entriesFrom_all)
  from le24 left len cards full show ?thesis by blast
qed

theorem hourly_window_at_most_24_witness:
  "list_all (\<lambda>t. t \<noteq> []) (hr_time ex_hourly)
   \<and> startIndex ex_rt 39600000 ex_hourly (- 1) None = 2
   \<and> length (hr_time ex_hourly) = 4
   \<and> length (renderHourly ex_rt 39600000 ex_hourly (- 1) None) = 2"
proof -
  have s: "startIndex ex_rt 39600000 ex_hourly (- 1) None = 2"
    by (simp add: startIndex_def findIndex_def date_after_def ex_rt_def ex_hourly_def
        ex_times_def)
  have a: "list_all (\<lambda>t. t \<noteq> []) (hr_time ex_hourly)"
    by (simp add: ex_hourly_def ex_times_def)
  then have b: "\<forall>t\<in>set (hr_time ex_hourly). t \<noteq> []"
    by (simp only: list_all_iff)
  have l: "length (hr_time ex_hourly) = 4"
    by (simp add: ex_hourly_def ex_times_def)
  from hourly_window_at_most_24 [of ex_rt 39600000 ex_hourly "- 1" None]
  have "(\<forall>t\<in>set (hr_time ex_hourly). t \<noteq> []) \<longrightarrow>
        length (renderHourly ex_rt 39600000 ex_hourly (- 1) None)
          = min 24 (length (hr_time ex_hourly) - startIndex ex_rt 39600000 ex_hourly (- 1) None)"
    by blast
  with b have "length (renderHourly ex_rt 39600000 ex_hourly (- 1) None) = min 24 (4 - 2)"
    by (simp only: s l)
  then have "length (renderHourly ex_rt 39600000 ex_hourly (- 1) None) = 2"
    by simp
  with s a l show ?thesis by blast
qed

text \<open>
  C5. For the Current slot (index -1) the window starts at the first hourly entry whose
  time value is strictly after the clock reading; when no entry is after it, and so in
  particular when every timestamp is at or before the reading, it starts at index 0.
  The first card shown carries the label Now; every later card carries the clock label
  of its own entry.
\<close>

theorem hourly_window_current:
  "((\<exists>t\<in>set (hr_time hourly). date_after rt now t) \<longrightarrow>
       startIndex rt now hourly (- 1) daily < length (hr_time hourly)
       \<and> date_after rt now (hr_time hourly ! startIndex rt now hourly (- 1) daily)
       \<and> (\<forall>j < startIndex rt now hourly (- 1) daily. \<not> date_after rt now (hr_time hourly ! j)))
   \<and> ((\<forall>t\<in>set (hr_time hourly). \<not> date_after rt now t) \<longrightarrow>
        startIndex rt now hourly (- 1) daily = 0)
   \<and> ((\<forall>t\<in>set (hr_time hourly). \<exists>v. date_getTime rt t = Some v \<and> v \<le> now) \<longrightarrow>
        startIndex rt now hourly (- 1) daily = 0)
   \<and> (renderHourly rt now hourly (- 1) daily \<noteq> [] \<longrightarrow>
        h_time (hd (renderHourly rt now hourly (- 1) daily)) = ''Now''
        \<and> h_temp (hd (renderHourly rt now hourly (- 1) daily))
            = round_str (js_index (hr_temperature_2m hourly)
                           (int (startIndex rt now hourly (- 1) daily))) @ [deg_sign])
   \<and> (\<forall>k. 0 < k \<and> k < length (renderHourly rt now hourly (- 1) daily) \<longrightarrow>
        h_time (renderHourly rt now hourly (- 1) daily ! k)
          = hourLabel (date_getHours rt
              (hr_time hourly ! (startIndex rt now hourly (- 1) daily + k))))"
proof -
  let ?ts = "hr_time hourly"
  let ?s = "startIndex rt now hourly (- 1) daily"
  let ?cards = "renderHourly rt now hourly (- 1) daily"
  have s: "?s = (if \<exists>t\<in>set ?ts. date_after rt now t
                 then length (takeWhile (\<lambda>t. \<not> date_after rt now t) ?ts) else 0)"
    by (rule startIndex_current)
  have fm: "((\<exists>t\<in>set ?ts. date_after rt now t) \<longrightarrow>
               ?s < length ?ts \<and> date_after rt now (?ts ! ?s)
               \<and> (\<forall>j < ?s. \<not> date_after rt now (?ts ! j)))
            \<and> ((\<forall>t\<in>set ?ts. \<not> date_after rt now t) \<longrightarrow> ?s = 0)"
    unfolding s by (rule first_match_start)
  have past: "(\<forall>t\<in>set ?ts. \<exists>v. date_getTime rt t = Some v \<and> v \<le> now) \<longrightarrow> ?s = 0"
  proof
    assume a: "\<forall>t\<in>set ?ts. \<exists>v. date_getTime rt t = Some v \<and> v \<le> now"
    have "\<forall>t\<in>set ?ts. \<not> date_after rt now t"
    proof
      fix t assume "t \<in> set ?ts"
      with a obtain v where "date_getTime rt t = Some v" and "v \<le> now" by blast
      then show "\<not> date_after rt now t" by (simp add: date_after_def)
    qed
    with fm show "?s = 0" by blast
  qed
  have first: "?cards \<noteq> [] \<longrightarrow>
      h_time (hd ?cards) = ''Now''
      \<and> h_temp (hd ?cards) = round_str (js_index (hr_temperature_2m hourly) (int ?s)) @ [deg_sign]"
  proof
    assume ne: "?cards \<noteq> []"
    then have "0 < length ?cards" by simp
    from renderHourly_nth [OF this]
    have "?cards ! 0 = hourCard rt hourly (- 1) ?s ?s (?ts ! ?s)" by simp
    moreover have "hd ?cards = ?cards ! 0" using ne by (simp add: hd_conv_nth)
    ultimately have "hd ?cards = hourCard rt hourly (- 1) ?s ?s (?ts ! ?s)" by simp
    then show "h_time (hd ?cards) = ''Now''
      \<and> h_temp (hd ?cards) = round_str (js_index (hr_temperature_2m hourly) (int ?s)) @ [deg_sign]"
      by (simp add: hourCard_def Let_def)
  qed
  have later: "\<forall>k. 0 < k \<and> k < length ?cards \<longrightarrow>
      h_time (?cards ! k) = hourLabel (date_getHours rt (?ts ! (?s + k)))"
  proof (intro allI impI)
    fix k assume k: "0 < k \<and> k < length ?cards"
    then have "?cards ! k = hourCard rt hourly (- 1) ?s (?s + k) (?ts ! (?s + k))"
      by (simp add: renderHourly_nth)
    with k show "h_time (?cards ! k) = hourLabel (date_getHours rt (?ts ! (?s + k)))"
      by (simp add: hourCard_time)
  qed
  from fm past first later show ?thesis by blast
qed

theorem hourly_window_current_witness:
  "list_ex (date_after ex_rt 39600000) (hr_time ex_hourly)
   \<and> startIndex ex_rt 39600000 ex_hourly (- 1) None = 2
   \<and> date_after ex_rt 39600000 (hr_time ex_hourly ! 2)
   \<and> length (renderHourly ex_rt 39600000 ex_hourly (- 1) None) = 2
   \<and> h_time (hd (renderHourly ex_rt 39600000 ex_hourly (- 1) None)) = ''Now''
   \<and> h_time (renderHourly ex_rt 39600000 ex_hourly (- 1) None ! 1) = ''12 AM''"
proof -
  let ?cards = "renderHourly ex_rt 39600000 ex_hourly (- 1) None"
  have s: "startIndex ex_rt 39600000 ex_hourly (- 1) None = 2"
    by (simp add: startIndex_def findIndex_def date_after_def ex_rt_def ex_hourly_def
        ex_times_def)
  have ex: "list_ex (date_after ex_rt 39600000) (hr_time ex_hourly)"
    by (simp add: date_after_def ex_rt_def ex_hourly_def ex_times_def)
  then have ex': "\<exists>t\<in>set (hr_time ex_hourly). date_after ex_rt 39600000 t"
    by (simp only: list_ex_iff)
  have len: "length ?cards = 2"
    by (simp only: renderHourly_length s) (simp add: entriesFrom_def ex_hourly_def ex_times_def)
  then have ne: "?cards \<noteq> []"
    by auto
  have h3: "hourLabel (date_getHours ex_rt (hr_time ex_hourly ! (2 + 1))) = ''12 AM''"
    by (simp add: hourLabel_def ex_rt_def ex_hourly_def ex_times_def)
  note inst = hourly_window_current [of ex_hourly ex_rt 39600000 None]
  from inst ex' have after: "date_after ex_rt 39600000 (hr_time ex_hourly ! 2)"
    by (simp only: s)
  from inst ne have now: "h_time (hd ?cards) = ''Now''"
    by blast
  from inst have "0 < (1::nat) \<and> 1 < length ?cards \<longrightarrow>
      h_time (?cards ! 1) = hourLabel (date_getHours ex_rt (hr_time ex_hourly
        ! (startIndex ex_rt 39600000 ex_hourly (- 1) None + 1)))"
    by blast
  then have "h_time (?cards ! 1) = hourLabel (date_getHours ex_rt (hr_time ex_hourly ! (2 + 1)))"
    by (simp only: s len) simp
  then have next_label: "h_time (?cards ! 1) = ''12 AM''"
    by (simp only: h3)
  from ex s after len now next_label show ?thesis by blast
qed

text \<open>
  C6. For a day slot \<open>i\<close> with \<open>0 \<le> i < daily.time.length\<close> the window starts at the
  first hourly entry whose timestamp begins with the date string \<open>daily.time[i]\<close>, and at
  index 0 when no timestamp does (a timestamp begins with the date string exactly when
  its first characters, as many as the date string has, are the date string). Every card of the window carries the clock label of
  its own entry, and none is labelled Now.
\<close>

lemma prefix_date_portion: "prefix date t \<longleftrightarrow> take (length date) t = date"
  by (metis append_eq_conv_conj append_take_drop_id prefixI prefix_def)

theorem hourly_window_day:
  assumes "0 \<le> i" and "i < int (length (dl_time d))"
  shows
  "((\<exists>t\<in>set (hr_time hourly). prefix (dl_time d ! nat i) t) \<longrightarrow>
       startIndex rt now hourly i (Some d) < length (hr_time hourly)
       \<and> prefix (dl_time d ! nat i) (hr_time hourly ! startIndex rt now hourly i (Some d))
       \<and> (\<forall>j < startIndex rt now hourly i (Some d).
            \<not> prefix (dl_time d ! nat i) (hr_time hourly ! j)))
   \<and> ((\<forall>t\<in>set (hr_time hourly). \<not> prefix (dl_time d ! nat i) t) \<longrightarrow>
        startIndex rt now hourly i (Some d) = 0)
   \<and> (\<forall>k < length (renderHourly rt now hourly i (Some d)).
        h_time (renderHourly rt now hourly i (Some d) ! k)
          = hourLabel (date_getHours rt
              (hr_time hourly ! (startIndex rt now hourly i (Some d) + k)))
        \<and> h_time (renderHourly rt now hourly i (Some d) ! k) \<noteq> ''Now'')"
proof -
  let ?ts = "hr_time hourly"
  let ?p = "prefix (dl_time d ! nat i)"
  let ?s = "startIndex rt now hourly i (Some d)"
  let ?cards = "renderHourly rt now hourly i (Some d)"
  have s: "?s = (if \<exists>t\<in>set ?ts. ?p t then length (takeWhile (\<lambda>t. \<not> ?p t) ?ts) else 0)"
    using assms by (rule startIndex_day)
  have fm: "((\<exists>t\<in>set ?ts. ?p t) \<longrightarrow>
               ?s < length ?ts \<and> ?p (?ts ! ?s) \<and> (\<forall>j < ?s. \<not> ?p (?ts ! j)))
            \<and> ((\<forall>t\<in>set ?ts. \<not> ?p t) \<longrightarrow> ?s = 0)"
    unfolding s by (rule first_match_start)
  have i: "i \<noteq> - 1" using assms(1) by simp
  have labels: "\<forall>k < length ?cards.
      h_time (?cards ! k) = hourLabel (date_getHours rt (?ts ! (?s + k)))
      \<and> h_time (?cards ! k) \<noteq> ''Now''"
  proof (intro allI impI)
    fix k assume "k < length ?cards"
    then have "?cards ! k = hourCard rt hourly i ?s (?s + k) (?ts ! (?s + k))"
      by (rule renderHourly_nth)
    then have "h_time (?cards ! k) = hourLabel (date_getHours rt (?ts ! (?s + k)))"
      using i by (simp add: hourCard_time)
    then show "h_time (?cards ! k) = hourLabel (date_getHours rt (?ts ! (?s + k)))
      \<and> h_time (?cards ! k) \<noteq> ''Now''"
      by (simp add: hourLabel_not_Now)
  qed
  from fm labels show ?thesis by blast
qed

theorem hourly_window_day_witness:
  "(0::int) \<le> 1 \<and> (1::int) < int (length (dl_time ex_daily))
   \<and> dl_time ex_daily ! nat 1 = ''2024-01-02''
   \<and> list_ex (prefix ''2024-01-02'') (hr_time ex_hourly)
   \<and> startIndex ex_rt 39600000 ex_hourly 1 (Some ex_daily) = 3
   \<and> prefix ''2024-01-02'' (hr_time ex_hourly ! startIndex ex_rt 39600000 ex_hourly 1 (Some ex_daily))
   \<and> length (renderHourly ex_rt 39600000 ex_hourly 1 (Some ex_daily)) = 1
   \<and> h_time (renderHourly ex_rt 39600000 ex_hourly 1 (Some ex_daily) ! 0) = ''12 AM''"
proof -
  let ?cards = "renderHourly ex_rt 39600000 ex_hourly 1 (Some ex_daily)"
  have n: "(1::int) < int (length (dl_time ex_daily))"
    by (simp add: ex_daily_def)
  have d: "dl_time ex_daily ! nat 1 = ''2024-01-02''"
    by (simp add: ex_daily_def)
  have s: "startIndex ex_rt 39600000 ex_hourly 1 (Some ex_daily) = 3"
    by (simp add: startIndex_def findIndex_def js_startsWith_def js_index_def ex_daily_def
        ex_hourly_def ex_times_def)
  have ex: "list_ex (prefix ''2024-01-02'') (hr_time ex_hourly)"
    by (simp add: ex_hourly_def ex_times_def)
  then have ex': "\<exists>t\<in>set (hr_time ex_hourly). prefix (dl_time ex_daily ! nat 1) t"
    by (simp only: list_ex_iff d)
  have len: "length ?cards = 1"
    by (simp only: renderHourly_length s) (simp add: entriesFrom_def ex_hourly_def ex_times_def)
  have h: "hourLabel (date_getHours ex_rt (hr_time ex_hourly ! (3 + 0))) = ''12 AM''"
    by (simp add: hourLabel_def ex_rt_def ex_hourly_def ex_times_def)
  have z: "(0::int) \<le> 1" by simp
  note inst = hourly_window_day [OF z n, of ex_hourly ex_rt 39600000]
  from inst ex' have
    "prefix (dl_time ex_daily ! nat 1)
       (hr_time ex_hourly ! startIndex ex_rt 39600000 ex_hourly 1 (Some ex_daily))"
    by blast
  then have p: "prefix ''2024-01-02''
       (hr_time ex_hourly ! startIndex ex_rt 39600000 ex_hourly 1 (Some ex_daily))"
    by (simp only: d)
  from inst have "0 < length ?cards \<longrightarrow>
      h_time (?cards ! 0) = hourLabel (date_getHours ex_rt (hr_time ex_hourly
        ! (startIndex ex_rt 39600000 ex_hourly 1 (Some ex_daily) + 0)))"
    by blast
  then have "h_time (?cards ! 0) = hourLabel (date_getHours ex_rt (hr_time ex_hourly ! (3 + 0)))"
    by (simp only: s len)
  then have l: "h_time (?cards ! 0) = ''12 AM''"
    by (simp only: h)
  from z n d ex s p len l show ?thesis by blast
qed

section \<open>The main view\<close>

text \<open>
  C3, as the claim states it, fails: with the same payload and the Current slot, two
  readings of the wall clock give two different views. Here the clock reads the start
  of the day in one call and 10:00 in the other, and both the date line and the hourly
  strip differ.
\<close>

theorem main_view_clock_counterexample:
  "renderMainView ex_rt 0 0 ex_data (- 1)
     \<noteq> renderMainView ex_rt 36000000 36000000 ex_data (- 1)"
proof
  assume "renderMainView ex_rt 0 0 ex_data (- 1)
            = renderMainView ex_rt 36000000 36000000 ex_data (- 1)"
  then have "length (hourlyWrapper (renderMainView ex_rt 0 0 ex_data (- 1)))
               = length (hourlyWrapper (renderMainView ex_rt 36000000 36000000 ex_data (- 1)))"
    by simp
  moreover have "startIndex ex_rt 0 ex_hourly (- 1) (Some ex_daily) = 0"
    by (simp add: startIndex_def findIndex_def date_after_def ex_rt_def ex_hourly_def
        ex_times_def)
  moreover have "startIndex ex_rt 36000000 ex_hourly (- 1) (Some ex_daily) = 1"
    by (simp add: startIndex_def findIndex_def date_after_def ex_rt_def ex_hourly_def
        ex_times_def)
  moreover have "entriesFrom (hr_time ex_hourly) 0 = 4"
    and "entriesFrom (hr_time ex_hourly) 1 = 3"
    by (simp_all add: entriesFrom_def ex_hourly_def ex_times_def)
  moreover have "wd_hourly ex_data = ex_hourly" and "wd_daily ex_data = ex_daily"
    by (simp_all add: ex_data_def)
  ultimately show False
    by (simp add: renderMainView_def Let_def renderHourly_length)
qed

text \<open>
  C3, amended. For a day slot (any index other than -1) the view is a function of the
  payload and the slot alone: whatever the two clock readings are, \<open>renderMainView\<close>
  gives the same view. For the Current slot the view is a function of the payload, the
  slot and the clock readings, which set the date line and the start of the hourly strip.
\<close>

theorem main_view_day_clock_free:
  "index \<noteq> - 1 \<Longrightarrow>
   renderMainView rt now_header now_hourly data index
     = renderMainView rt now_header' now_hourly' data index"
  by (simp add: renderMainView_def renderHourly_def startIndex_def Let_def)

theorem main_view_day_clock_free_witness:
  "(2::int) \<noteq> - 1
   \<and> renderMainView ex_rt 0 0 ex_data 2 = renderMainView ex_rt 36000000 39600000 ex_data 2"
  using main_view_day_clock_free [of 2 ex_rt 0 0 ex_data 36000000 39600000]
  by simp

text \<open>
  C8. For every payload and every day slot (any index other than -1, so every valid day
  index) the humidity field of the view is the literal placeholder \<open>--\<close>, whatever the
  payload holds.
\<close>

theorem main_view_day_humidity:
  "index \<noteq> - 1 \<Longrightarrow>
   humidity_text (renderMainView rt now_header now_hourly data index) = ''--''"
  by (simp add: renderMainView_def Let_def)

theorem main_view_day_humidity_witness:
  "(3::int) \<noteq> - 1 \<and> 3 < int (length (dl_time (wd_daily ex_data)))
   \<and> humidity_text (renderMainView ex_rt 0 0 ex_data 3) = ''--''"
  using main_view_day_humidity [of 3 ex_rt 0 0 ex_data]
  by (simp add: ex_data_def ex_daily_def)

section \<open>Manual search\<close>

text \<open>
  C7. When the trimmed query is not empty and the search collaborator answers with zero
  results, \<open>handleManualSearch\<close> ends with the status City not found. shown in place of
  the application, the only request sent is the search itself, so no forecast is
  fetched, and the stored payload and the rendered view are left as they were.
\<close>

theorem search_not_found:
  assumes "trim (cityInput_value (page st)) \<noteq> []"
    and "search_api w (trim (cityInput_value (page st))) = Some []"
  shows "statusText (page (handleManualSearch w st)) = ''City not found.''
         \<and> statusDiv_display (page (handleManualSearch w st)) = ''flex''
         \<and> \<not> statusDiv_hidden (page (handleManualSearch w st))
         \<and> weatherApp_display (page (handleManualSearch w st)) = ''none''
         \<and> weatherApp_hidden (page (handleManualSearch w st))
         \<and> requests (handleManualSearch w st)
             = requests st @ [SearchRequest (trim (cityInput_value (page st)))]
         \<and> weatherData (handleManualSearch w st) = weatherData st
         \<and> mainCard (page (handleManualSearch w st)) = mainCard (page st)
         \<and> dailyWrapper (page (handleManualSearch w st)) = dailyWrapper (page st)"
  using assms by (simp add: handleManualSearch_def setLoadingState_def Let_def)

theorem search_not_found_witness:
  "trim (cityInput_value (page (ex_state ''  Nowhereville ''))) = ''Nowhereville''
   \<and> search_api ex_world ''Nowhereville'' = Some []
   \<and> statusText (page (handleManualSearch ex_world (ex_state ''  Nowhereville '')))
       = ''City not found.''
   \<and> requests (handleManualSearch ex_world (ex_state ''  Nowhereville ''))
       = [SearchRequest ''Nowhereville'']
   \<and> weatherData (handleManualSearch ex_world (ex_state ''  Nowhereville ''))
       = Some ex_data"
proof -
  let ?st = "ex_state ''  Nowhereville ''"
  have t: "trim (cityInput_value (page ?st)) = ''Nowhereville''"
    by (simp add: ex_state_def trim_def is_ws_def)
  have a: "search_api ex_world ''Nowhereville'' = Some []"
    by (simp add: ex_world_def)
  have ne: "trim (cityInput_value (page ?st)) \<noteq> []"
    by (simp only: t) simp
  have a': "search_api ex_world (trim (cityInput_value (page ?st))) = Some []"
    by (simp only: t a)
  have r: "requests ?st = []" and d: "weatherData ?st = Some ex_data"
    by (simp_all add: ex_state_def)
  note inst = search_not_found [OF ne a']
  from inst have "statusText (page (handleManualSearch ex_world ?st)) = ''City not found.''"
    by blast
  moreover from inst have "requests (handleManualSearch ex_world ?st)
      = requests ?st @ [SearchRequest (trim (cityInput_value (page ?st)))]"
    by blast
  then have "requests (handleManualSearch ex_world ?st) = [SearchRequest ''Nowhereville'']"
    by (simp only: r t append_Nil)
  moreover from inst have "weatherData (handleManualSearch ex_world ?st) = weatherData ?st"
    by blast
  then have "weatherData (handleManualSearch ex_world ?st) = Some ex_data"
    by (simp only: d)
  ultimately show ?thesis using t a by blast
qed

text \<open>
  C10. When the search input is empty or holds white space only, \<open>handleManualSearch\<close>
  returns at once: the state after the call is the state before it, so no request is
  sent, no status is set, and the stored payload and the page are unchanged.
\<close>

theorem search_blank_input:
  "\<forall>c\<in>set (cityInput_value (page st)). is_ws c \<Longrightarrow> handleManualSearch w st = st"
  by (simp add: handleManualSearch_def trim_blank)

theorem search_blank_input_witness:
  "list_all is_ws (cityInput_value (page (ex_state [CHR '' '', CHR 0x09, CHR '' ''])))
   \<and> handleManualSearch ex_world (ex_state [CHR '' '', CHR 0x09, CHR '' ''])
       = ex_state [CHR '' '', CHR 0x09, CHR '' '']
   \<and> handleManualSearch ex_world (ex_state []) = ex_state []"
proof -
  let ?st = "ex_state [CHR '' '', CHR 0x09, CHR '' '']"
  have a: "list_all is_ws (cityInput_value (page ?st))"
    by (simp add: ex_state_def is_ws_def)
  then have "\<forall>c\<in>set (cityInput_value (page ?st)). is_ws c"
    by (simp only: list_all_iff)
  then have b: "handleManualSearch ex_world ?st = ?st"
    by (rule search_blank_input)
  have "\<forall>c\<in>set (cityInput_value (page (ex_state []))). is_ws c"
    by (simp add: ex_state_def)
  then have c: "handleManualSearch ex_world (ex_state []) = ex_state []"
    by (rule search_blank_input)
  from a b c show ?thesis by blast
qed

end
